theory Spec2Isabelle
  imports Main
begin

section \<open>Values, exceptions and strings\<close>

text \<open>
  The values the probes of \<^verbatim>\<open>feature.js\<close> meet and hand back: \<^verbatim>\<open>undefined\<close>,
  \<^verbatim>\<open>null\<close>, booleans, strings, and objects (functions included). An object is
  opaque here; what the code asks of a particular host object is a field of the
  environment below. Strings are lists of characters; the model is exact on ASCII
  characters, of which the names and the literals of the code are made.
\<close>

datatype jsval = VUndefined | VNull | VBool bool | VStr string | VObject

datatype exn = TypeError | ReferenceError | HostError string

text \<open>ToBoolean: what \<^verbatim>\<open>!!v\<close>, \<^verbatim>\<open>v && w\<close> and \<^verbatim>\<open>if (v)\<close> look at.\<close>

fun truthy :: "jsval \<Rightarrow> bool" where
  "truthy VUndefined = False"
| "truthy VNull = False"
| "truthy (VBool b) = b"
| "truthy (VStr s) = (s \<noteq> [])"
| "truthy VObject = True"

text \<open>\<^verbatim>\<open>v && w\<close> on two values already computed.\<close>

definition js_and :: "jsval \<Rightarrow> jsval \<Rightarrow> jsval" where
  "js_and v w = (if truthy v then w else v)"

text \<open>
  \<^verbatim>\<open>toUpperCase\<close> and \<^verbatim>\<open>toLowerCase\<close> as they are on ASCII strings (the letters of
  CSS property names and of the catalog's keys). On a character outside ASCII these
  definitions keep the character and are not the code's (JavaScript maps U+00E9 to
  U+00C9 and U+00DF to SS); what is stated of the candidate list is stated of ASCII
  names.
\<close>

definition lower_letters :: string where
  "lower_letters = ''abcdefghijklmnopqrstuvwxyz''"

definition upper_letters :: string where
  "upper_letters = ''ABCDEFGHIJKLMNOPQRSTUVWXYZ''"

definition upper_char :: "char \<Rightarrow> char" where
  "upper_char c = (case map_of (zip lower_letters upper_letters) c of
                     None \<Rightarrow> c | Some u \<Rightarrow> u)"

definition lower_char :: "char \<Rightarrow> char" where
  "lower_char c = (case map_of (zip upper_letters lower_letters) c of
                     None \<Rightarrow> c | Some l \<Rightarrow> l)"

definition toUpperCase :: "string \<Rightarrow> string" where
  "toUpperCase s = map upper_char s"

definition toLowerCase :: "string \<Rightarrow> string" where
  "toLowerCase s = map lower_char s"

text \<open>\<^verbatim>\<open>s.charAt(0)\<close> is the empty string on the empty string; \<^verbatim>\<open>s.substr(1)\<close> likewise.\<close>

definition charAt0 :: "string \<Rightarrow> string" where
  "charAt0 s = take 1 s"

definition substr1 :: "string \<Rightarrow> string" where
  "substr1 s = drop 1 s"

text \<open>\<^verbatim>\<open>xs.join(sep)\<close>.\<close>

fun join :: "string list \<Rightarrow> string \<Rightarrow> string" where
  "join [] sep = []"
| "join [x] sep = x"
| "join (x # y # ys) sep = x @ sep @ join (y # ys) sep"

text \<open>
  \<^verbatim>\<open>s.split(" ")\<close>: a cut at every space; the empty string gives one empty piece.
\<close>

fun split_sp :: "string \<Rightarrow> string list" where
  "split_sp [] = [[]]"
| "split_sp (c # cs) =
     (if c = CHR '' '' then [] # split_sp cs
      else (case split_sp cs of
              [] \<Rightarrow> [[c]]
            | w # ws \<Rightarrow> (c # w) # ws))"

section \<open>The host environment\<close>

text \<open>
  A transient element, as \<^verbatim>\<open>document.createElement(tag)\<close> gives it:
  \<^item> \<open>el_has name\<close> is \<^verbatim>\<open>name in el\<close>;
  \<^item> \<open>el_getContext\<close> is the property \<^verbatim>\<open>el.getContext\<close>: \<open>None\<close> when it is
    undefined, \<open>Some f\<close> when it is a function, \<open>f arg\<close> being what the call
    \<^verbatim>\<open>el.getContext(arg)\<close> returns or raises;
  \<^item> \<open>el_style_width v\<close> is what the assignment \<^verbatim>\<open>el.style.width = v\<close> followed by
    the read \<^verbatim>\<open>el.style.width\<close> gives: the exception of whichever step raises, or
    the value read back.
\<close>

record element =
  el_has :: "string \<Rightarrow> bool"
  el_getContext :: "(string \<Rightarrow> exn + jsval) option"
  el_style_width :: "string \<Rightarrow> exn + jsval"

text \<open>
  What the code reads of its host, one field for each thing it inspects. The host
  is one in which the module has loaded as it presumes: \<^verbatim>\<open>document.documentElement\<close>
  is an element, \<^verbatim>\<open>navigator\<close> an object, and the dummy element of the resolver has a
  style object; no script has added enumerable members to the prototypes of arrays
  or objects. A host where creating an element raises or where the dummy element has
  no style object is the record \<open>host\<close> further down.
  \<^item> \<open>userAgent\<close>: \<^verbatim>\<open>navigator.userAgent\<close>;
  \<^item> \<open>docEl_className\<close>: the class attribute of \<^verbatim>\<open>document.documentElement\<close> when the
    script is loaded;
  \<^item> \<open>proto\<close>: the members an object literal \<^verbatim>\<open>{}\<close> inherits (from
    \<^verbatim>\<open>Object.prototype\<close>), \<open>None\<close> where it inherits nothing;
  \<^item> \<open>style_has name\<close>: \<^verbatim>\<open>style[name] !== undefined\<close> on the style object of the
    resolver's dummy element;
  \<^item> \<open>window\<close>: the properties of \<^verbatim>\<open>window\<close>, \<open>None\<close> where \<^verbatim>\<open>name in window\<close> is
    false (the global identifiers \<^verbatim>\<open>XMLHttpRequest\<close> and \<^verbatim>\<open>DocumentTouch\<close> are read
    there too);
  \<^item> \<open>docEl_has\<close>, \<open>navigator_has\<close>, \<open>history_has\<close>, \<open>localStorage_has\<close>:
    the \<^verbatim>\<open>in\<close> operator on the root element, on \<^verbatim>\<open>navigator\<close>, on the object
    \<^verbatim>\<open>window.history\<close> and on the storage object;
  \<^item> \<open>document_querySelectorAll\<close>: the value of \<^verbatim>\<open>document.querySelectorAll\<close>;
  \<^item> \<open>document_createElementNS\<close>: \<open>None\<close> when \<^verbatim>\<open>document.createElementNS\<close> is
    undefined; \<open>Some r\<close> when it is a function, \<open>r\<close> being what the call
    \<^verbatim>\<open>document.createElementNS("http://www.w3.org/2000/svg", "svg")\<close> raises, or the
    property read of the element it returns;
  \<^item> \<open>create tag\<close>: the element \<^verbatim>\<open>document.createElement(tag)\<close> returns;
  \<^item> \<open>localStorage_ref\<close>: what evaluating the identifier \<^verbatim>\<open>localStorage\<close> raises or
    gives;
  \<^item> \<open>navigator_msPointerEnabled\<close>: \<^verbatim>\<open>msPointerEnabled\<close> of the navigator object;
  \<^item> \<open>new_XMLHttpRequest\<close>: what \<^verbatim>\<open>new XMLHttpRequest()\<close> raises, or the \<^verbatim>\<open>in\<close>
    operator of the object it constructs, when \<^verbatim>\<open>XMLHttpRequest\<close> is an object;
  \<^item> \<open>document_instanceof_DocumentTouch\<close>: what \<^verbatim>\<open>document instanceof DocumentTouch\<close>
    raises or gives, when \<^verbatim>\<open>DocumentTouch\<close> is an object.
\<close>

record env =
  userAgent :: string
  docEl_className :: string
  proto :: "string \<Rightarrow> jsval option"
  style_has :: "string \<Rightarrow> bool"
  window :: "string \<Rightarrow> jsval option"
  docEl_has :: "string \<Rightarrow> bool"
  navigator_has :: "string \<Rightarrow> bool"
  history_has :: "string \<Rightarrow> bool"
  localStorage_has :: "string \<Rightarrow> bool"
  document_querySelectorAll :: jsval
  document_createElementNS :: "(exn + (string \<Rightarrow> jsval)) option"
  create :: "string \<Rightarrow> element"
  localStorage_ref :: "exn + jsval"
  navigator_msPointerEnabled :: jsval
  new_XMLHttpRequest :: "exn + (string \<Rightarrow> bool)"
  document_instanceof_DocumentTouch :: "exn + bool"

text \<open>\<^verbatim>\<open>window.name\<close> and \<^verbatim>\<open>name in window\<close>.\<close>

definition window_get :: "env \<Rightarrow> string \<Rightarrow> jsval" where
  "window_get e name = (case window e name of None \<Rightarrow> VUndefined | Some v \<Rightarrow> v)"

definition in_window :: "env \<Rightarrow> string \<Rightarrow> bool" where
  "in_window e name = (window e name \<noteq> None)"

text \<open>
  \<^verbatim>\<open>name in v\<close> where \<open>v\<close> is a value and \<open>has\<close> the \<^verbatim>\<open>in\<close> operator of the object
  it may be: the operator raises TypeError on anything that is not an object.
\<close>

definition js_in :: "string \<Rightarrow> jsval \<Rightarrow> (string \<Rightarrow> bool) \<Rightarrow> exn + bool" where
  "js_in name v has = (case v of VObject \<Rightarrow> Inr (has name) | _ \<Rightarrow> Inl TypeError)"

section \<open>The module's own state\<close>

text \<open>
  The closure variables of the module and the one piece of the document it writes:
  \<^item> \<open>old\<close>: \<^verbatim>\<open>util.old\<close>;
  \<^item> \<open>memory\<close>: the own properties of the resolver's \<^verbatim>\<open>memory\<close> object;
  \<^item> \<open>checked\<close>: instrumentation, the names looked up in the style object so far,
    in order (the call count of the property-existence check);
  \<^item> \<open>className\<close>: the class attribute of the root element.
\<close>

record state =
  old :: bool
  memory :: "string \<Rightarrow> jsval option"
  checked :: "string list"
  className :: string

subsection \<open>\<^verbatim>\<open>util.old\<close>\<close>

text \<open>
  \<^verbatim>\<open>/(Android\s(1.|2.))|(Silk\/1.)/i.test(navigator.userAgent)\<close>: the pattern is looked
  for at every position of the string. \<^verbatim>\<open>\s\<close> is white space, \<^verbatim>\<open>.\<close> any character
  that is not a line terminator, and letters are compared without case.
\<close>

definition is_space :: "char \<Rightarrow> bool" where
  "is_space c = (of_char c \<in> {9, 10, 11, 12, 13, 32, 160 :: nat})"

definition is_line_terminator :: "char \<Rightarrow> bool" where
  "is_line_terminator c = (of_char c \<in> {10, 13 :: nat})"

fun ci_prefix :: "string \<Rightarrow> string \<Rightarrow> bool" where
  "ci_prefix [] s = True"
| "ci_prefix (p # ps) [] = False"
| "ci_prefix (p # ps) (c # cs) = (upper_char c = upper_char p \<and> ci_prefix ps cs)"

definition old_at :: "string \<Rightarrow> bool" where
  "old_at s =
     ((ci_prefix ''Android'' s \<and>
        (case drop 7 s of
           w # d # c # _ \<Rightarrow>
             is_space w \<and> (d = CHR ''1'' \<or> d = CHR ''2'') \<and> \<not> is_line_terminator c
         | _ \<Rightarrow> False))
      \<or> (ci_prefix ''Silk/1'' s \<and>
        (case drop 6 s of c # _ \<Rightarrow> \<not> is_line_terminator c | _ \<Rightarrow> False)))"

fun old_test :: "string \<Rightarrow> bool" where
  "old_test [] = old_at []"
| "old_test (c # cs) = (old_at (c # cs) \<or> old_test cs)"

text \<open>Module initialisation: the body of the outer function, run once at load.\<close>

definition init :: "env \<Rightarrow> state" where
  "init e = \<lparr> old = old_test (userAgent e), memory = Map.empty, checked = [],
             className = docEl_className e \<rparr>"

subsection \<open>\<^verbatim>\<open>util.pfx\<close>\<close>

definition prefixes :: "string list" where
  "prefixes = [''Webkit'', ''Moz'', ''O'', ''ms'']"

definition ucProp :: "string \<Rightarrow> string" where
  "ucProp prop = toUpperCase (charAt0 prop) @ substr1 prop"

definition props :: "string \<Rightarrow> string list" where
  "props prop =
     split_sp (prop @ '' '' @ join prefixes (ucProp prop @ '' '') @ ucProp prop)"

text \<open>
  \<^verbatim>\<open>memory[prop]\<close>: the own property, else the inherited member, else undefined.
\<close>

definition memory_get :: "env \<Rightarrow> state \<Rightarrow> string \<Rightarrow> jsval" where
  "memory_get e s prop =
     (case memory s prop of
        Some v \<Rightarrow> v
      | None \<Rightarrow> (case proto e prop of Some v \<Rightarrow> v | None \<Rightarrow> VUndefined))"

text \<open>
  The loop \<^verbatim>\<open>for (var i in props)\<close> with its \<^verbatim>\<open>break\<close>, over the indices of the
  array in ascending order; each pass looks one name up in the style object (recorded
  in \<open>checked\<close>). The style object is taken once, at load; \<open>style_has\<close> says what
  it holds at the time of the call.
\<close>

fun pfx_loop :: "env \<Rightarrow> string \<Rightarrow> string list \<Rightarrow> state \<Rightarrow> state" where
  "pfx_loop e prop [] s = s"
| "pfx_loop e prop (c # cs) s =
     (let s1 = s\<lparr>checked := checked s @ [c]\<rparr>
      in if style_has e c then s1\<lparr>memory := (memory s1)(prop \<mapsto> VStr c)\<rparr>
         else pfx_loop e prop cs s1)"

definition pfx :: "env \<Rightarrow> string \<Rightarrow> state \<Rightarrow> jsval \<times> state" where
  "pfx e prop s =
     (let s' = (if memory_get e s prop = VUndefined
                then pfx_loop e prop (props prop)
                       (s\<lparr>memory := (memory s)(prop \<mapsto> VNull)\<rparr>)
                else s)
      in (memory_get e s' prop, s'))"

section \<open>The catalog of probes\<close>

text \<open>
  Each probe is the body of the function of the same name in the object \<^verbatim>\<open>Feature\<close>.
  A probe that reads the resolver takes the state and returns it; a probe that can
  let an exception out returns \<open>exn + jsval\<close>; the others return the value.
\<close>

definition css3Dtransform :: "env \<Rightarrow> state \<Rightarrow> jsval \<times> state" where
  "css3Dtransform e s =
     (if old s then (VBool False, s)
      else (let (r, s') = pfx e ''perspective'' s in (VBool (r \<noteq> VNull), s')))"

definition cssTransform :: "env \<Rightarrow> state \<Rightarrow> jsval \<times> state" where
  "cssTransform e s =
     (if old s then (VBool False, s)
      else (let (r, s') = pfx e ''transformOrigin'' s in (VBool (r \<noteq> VNull), s')))"

definition cssTransition :: "env \<Rightarrow> state \<Rightarrow> jsval \<times> state" where
  "cssTransition e s =
     (let (r, s') = pfx e ''transition'' s in (VBool (r \<noteq> VNull), s'))"

definition addEventListener :: "env \<Rightarrow> jsval" where
  "addEventListener e = VBool (truthy (window_get e ''addEventListener''))"

definition querySelectorAll :: "env \<Rightarrow> jsval" where
  "querySelectorAll e = document_querySelectorAll e"

definition matchMedia :: "env \<Rightarrow> jsval" where
  "matchMedia e = window_get e ''matchMedia''"

definition deviceMotion :: "env \<Rightarrow> jsval" where
  "deviceMotion e = VBool (in_window e ''DeviceMotionEvent'')"

definition deviceOrientation :: "env \<Rightarrow> jsval" where
  "deviceOrientation e = VBool (in_window e ''DeviceOrientationEvent'')"

definition contextMenu :: "env \<Rightarrow> jsval" where
  "contextMenu e =
     VBool (docEl_has e ''contextMenu'' \<and> in_window e ''HTMLMenuItemElement'')"

definition classList :: "env \<Rightarrow> jsval" where
  "classList e = VBool (docEl_has e ''classList'')"

definition placeholder :: "env \<Rightarrow> jsval" where
  "placeholder e = VBool (el_has (create e ''input'') ''placeholder'')"

text \<open>The body of the \<^verbatim>\<open>try\<close> block, then the probe with its \<^verbatim>\<open>catch\<close>.\<close>

definition localStorage_try :: "env \<Rightarrow> exn + jsval" where
  "localStorage_try e =
     (case localStorage_ref e of
        Inl x \<Rightarrow> Inl x
      | Inr ls \<Rightarrow>
          (case js_in ''setItem'' ls (localStorage_has e) of
             Inl x \<Rightarrow> Inl x
           | Inr False \<Rightarrow> Inr (VBool False)
           | Inr True \<Rightarrow>
               (case js_in ''removeItem'' ls (localStorage_has e) of
                  Inl x \<Rightarrow> Inl x
                | Inr b \<Rightarrow> Inr (VBool b))))"

definition localStorage :: "env \<Rightarrow> jsval" where
  "localStorage e =
     (case localStorage_try e of Inl err \<Rightarrow> VBool False | Inr v \<Rightarrow> v)"

definition historyAPI :: "env \<Rightarrow> exn + jsval" where
  "historyAPI e =
     (let h = window_get e ''history''
      in if truthy h
         then (case js_in ''pushState'' h (history_has e) of
                 Inl x \<Rightarrow> Inl x
               | Inr b \<Rightarrow> Inr (VBool b))
         else Inr h)"

definition serviceWorker :: "env \<Rightarrow> jsval" where
  "serviceWorker e = VBool (navigator_has e ''serviceWorker'')"

definition unit_try :: "element \<Rightarrow> string \<Rightarrow> exn + jsval" where
  "unit_try el u =
     (case el_style_width el u of
        Inl x \<Rightarrow> Inl x
      | Inr w \<Rightarrow> Inr (VBool (w \<noteq> VStr [])))"

definition viewportUnit :: "env \<Rightarrow> jsval" where
  "viewportUnit e =
     (let el = create e ''dummy''
      in case unit_try el ''1vw'' of Inl err \<Rightarrow> VBool False | Inr v \<Rightarrow> v)"

definition remUnit :: "env \<Rightarrow> jsval" where
  "remUnit e =
     (let el = create e ''dummy''
      in case unit_try el ''1rem'' of Inl err \<Rightarrow> VBool False | Inr v \<Rightarrow> v)"

definition canvas :: "env \<Rightarrow> exn + jsval" where
  "canvas e =
     (let el = create e ''dummy''
      in case el_getContext el of
           None \<Rightarrow> Inr (VBool False)
         | Some f \<Rightarrow>
             (case f ''2d'' of Inl x \<Rightarrow> Inl x | Inr c \<Rightarrow> Inr (VBool (truthy c))))"

definition svg :: "env \<Rightarrow> exn + jsval" where
  "svg e =
     (case document_createElementNS e of
        None \<Rightarrow> Inr (VBool False)
      | Some r \<Rightarrow>
          (case r of
             Inl x \<Rightarrow> Inl x
           | Inr el \<Rightarrow> Inr (VBool (truthy (el ''createSVGRect'')))))"

text \<open>
  The call \<^verbatim>\<open>el.getContext(arg)\<close> with no test of the property first: calling
  undefined raises TypeError.
\<close>

definition call_getContext :: "element \<Rightarrow> string \<Rightarrow> exn + jsval" where
  "call_getContext el arg =
     (case el_getContext el of None \<Rightarrow> Inl TypeError | Some f \<Rightarrow> f arg)"

definition webGL_try :: "env \<Rightarrow> element \<Rightarrow> exn + jsval" where
  "webGL_try e el =
     (if \<not> truthy (window_get e ''WebGLRenderingContext'') then Inr (VBool False)
      else (case call_getContext el ''webgl'' of
              Inl x \<Rightarrow> Inl x
            | Inr c \<Rightarrow>
                if truthy c then Inr (VBool True)
                else (case call_getContext el ''experimental-webgl'' of
                        Inl x \<Rightarrow> Inl x
                      | Inr c' \<Rightarrow> Inr (VBool (truthy c')))))"

definition webGL :: "env \<Rightarrow> jsval" where
  "webGL e =
     (let el = create e ''dummy''
      in case webGL_try e el of Inl err \<Rightarrow> VBool False | Inr v \<Rightarrow> v)"

text \<open>
  \<^verbatim>\<open>new XMLHttpRequest()\<close>: the identifier is the property of \<^verbatim>\<open>window\<close>; a value
  that is not an object is not a constructor.
\<close>

definition construct_XMLHttpRequest :: "env \<Rightarrow> exn + (string \<Rightarrow> bool)" where
  "construct_XMLHttpRequest e =
     (case window_get e ''XMLHttpRequest'' of
        VObject \<Rightarrow> new_XMLHttpRequest e
      | _ \<Rightarrow> Inl TypeError)"

definition cors :: "env \<Rightarrow> exn + jsval" where
  "cors e =
     (if in_window e ''XMLHttpRequest''
      then (case construct_XMLHttpRequest e of
              Inl x \<Rightarrow> Inl x
            | Inr has \<Rightarrow> Inr (VBool (has ''withCredentials'')))
      else Inr (VBool False))"

text \<open>
  \<^verbatim>\<open>A || B && C && D || E && F\<close>, read as \<^verbatim>\<open>A || (B && C && D) || (E && F)\<close>.
  Reading \<^verbatim>\<open>msPointerEnabled\<close> of a truthy value that is not an object gives
  undefined; \<^verbatim>\<open>instanceof\<close> with a right operand that is not an object raises.
\<close>

definition msPointerEnabled_of :: "env \<Rightarrow> jsval \<Rightarrow> jsval" where
  "msPointerEnabled_of e nav =
     (case nav of VObject \<Rightarrow> navigator_msPointerEnabled e | _ \<Rightarrow> VUndefined)"

definition instanceof_DocumentTouch :: "env \<Rightarrow> jsval \<Rightarrow> exn + bool" where
  "instanceof_DocumentTouch e dt =
     (case dt of VObject \<Rightarrow> document_instanceof_DocumentTouch e | _ \<Rightarrow> Inl TypeError)"

definition touch :: "env \<Rightarrow> exn + jsval" where
  "touch e =
     (if in_window e ''ontouchstart'' then Inr (VBool True)
      else (let nav = window_get e ''navigator'';
                g = (if truthy nav
                     then js_and (msPointerEnabled_of e nav) (window_get e ''MSGesture'')
                     else nav)
            in if truthy g then Inr (VBool True)
               else (let dt = window_get e ''DocumentTouch''
                     in if truthy dt
                        then (case instanceof_DocumentTouch e dt of
                                Inl x \<Rightarrow> Inl x
                              | Inr b \<Rightarrow> Inr (VBool b))
                        else Inr (VBool False))))"

definition async :: "env \<Rightarrow> jsval" where
  "async e = VBool (el_has (create e ''script'') ''async'')"

definition defer_attr :: "env \<Rightarrow> jsval" where
  "defer_attr e = VBool (el_has (create e ''script'') ''defer'')"

definition geolocation :: "env \<Rightarrow> jsval" where
  "geolocation e = VBool (navigator_has e ''geolocation'')"

definition srcset :: "env \<Rightarrow> jsval" where
  "srcset e = VBool (el_has (create e ''img'') ''srcset'')"

definition sizes :: "env \<Rightarrow> jsval" where
  "sizes e = VBool (el_has (create e ''img'') ''sizes'')"

definition pictureElement :: "env \<Rightarrow> jsval" where
  "pictureElement e = VBool (in_window e ''HTMLPictureElement'')"

subsection \<open>The catalog as data\<close>

datatype probe =
    Css3Dtransform | CssTransform | CssTransition | AddEventListener
  | QuerySelectorAll | MatchMedia | DeviceMotion | DeviceOrientation | ContextMenu
  | ClassList | Placeholder | LocalStorage | HistoryAPI | ServiceWorker
  | ViewportUnit | RemUnit | Canvas | Svg | WebGL | Cors | Touch | Async | Defer
  | Geolocation | Srcset | Sizes | PictureElement

text \<open>A call \<^verbatim>\<open>feature.name()\<close>: the completion (raised or returned) and the state.\<close>

fun run_probe :: "probe \<Rightarrow> env \<Rightarrow> state \<Rightarrow> (exn + jsval) \<times> state" where
  "run_probe Css3Dtransform e s = (let (v, s') = css3Dtransform e s in (Inr v, s'))"
| "run_probe CssTransform e s = (let (v, s') = cssTransform e s in (Inr v, s'))"
| "run_probe CssTransition e s = (let (v, s') = cssTransition e s in (Inr v, s'))"
| "run_probe AddEventListener e s = (Inr (addEventListener e), s)"
| "run_probe QuerySelectorAll e s = (Inr (querySelectorAll e), s)"
| "run_probe MatchMedia e s = (Inr (matchMedia e), s)"
| "run_probe DeviceMotion e s = (Inr (deviceMotion e), s)"
| "run_probe DeviceOrientation e s = (Inr (deviceOrientation e), s)"
| "run_probe ContextMenu e s = (Inr (contextMenu e), s)"
| "run_probe ClassList e s = (Inr (classList e), s)"
| "run_probe Placeholder e s = (Inr (placeholder e), s)"
| "run_probe LocalStorage e s = (Inr (localStorage e), s)"
| "run_probe HistoryAPI e s = (historyAPI e, s)"
| "run_probe ServiceWorker e s = (Inr (serviceWorker e), s)"
| "run_probe ViewportUnit e s = (Inr (viewportUnit e), s)"
| "run_probe RemUnit e s = (Inr (remUnit e), s)"
| "run_probe Canvas e s = (canvas e, s)"
| "run_probe Svg e s = (svg e, s)"
| "run_probe WebGL e s = (Inr (webGL e), s)"
| "run_probe Cors e s = (cors e, s)"
| "run_probe Touch e s = (touch e, s)"
| "run_probe Async e s = (Inr (async e), s)"
| "run_probe Defer e s = (Inr (defer_attr e), s)"
| "run_probe Geolocation e s = (Inr (geolocation e), s)"
| "run_probe Srcset e s = (Inr (srcset e), s)"
| "run_probe Sizes e s = (Inr (sizes e), s)"
| "run_probe PictureElement e s = (Inr (pictureElement e), s)"

section \<open>The aggregator\<close>

text \<open>
  The properties of \<^verbatim>\<open>Feature\<close> in the order they are written, which is the order
  \<^verbatim>\<open>for (var test in this)\<close> visits them in when \<^verbatim>\<open>testAll\<close> is called as
  \<^verbatim>\<open>feature.testAll()\<close>; the value of each is a function.
\<close>

definition Feature_keys :: "string list" where
  "Feature_keys =
     [''css3Dtransform'', ''cssTransform'', ''cssTransition'', ''addEventListener'',
      ''querySelectorAll'', ''matchMedia'', ''deviceMotion'', ''deviceOrientation'',
      ''contextMenu'', ''classList'', ''placeholder'', ''localStorage'', ''historyAPI'',
      ''serviceWorker'', ''viewportUnit'', ''remUnit'', ''canvas'', ''svg'', ''webGL'',
      ''cors'', ''touch'', ''async'', ''defer'', ''geolocation'', ''srcset'', ''sizes'',
      ''pictureElement'', ''testAll'']"

definition Feature_object :: "(string \<times> jsval) list" where
  "Feature_object = map (\<lambda>k. (k, VObject)) Feature_keys"

text \<open>
  The receiver \<^verbatim>\<open>this\<close> of a call of \<^verbatim>\<open>testAll\<close>. The code is strict, so in a call
  that names no receiver (\<^verbatim>\<open>var f = feature.testAll; f()\<close>) \<^verbatim>\<open>this\<close> is undefined,
  and \<^verbatim>\<open>for (var test in undefined)\<close> visits nothing: that is \<open>None\<close>. Otherwise
  \<^verbatim>\<open>this\<close> is an object, given by the properties \<^verbatim>\<open>for\<close>-\<^verbatim>\<open>in\<close> visits, in order,
  each with its value \<^verbatim>\<open>this[test]\<close>; \<open>Some Feature_object\<close> is the call
  \<^verbatim>\<open>feature.testAll()\<close>.
\<close>

type_synonym receiver = "(string \<times> jsval) list option"

text \<open>
  The loop of \<^verbatim>\<open>testAll\<close>. In the statement \<^verbatim>\<open>classes += " " + test()\<close> the variable
  \<^verbatim>\<open>test\<close> is the enumerated key, a string; calling a string raises TypeError
  before anything is concatenated, so a key that passes the guard ends the loop with
  that exception.
\<close>

fun testAll_loop :: "(string \<times> jsval) list \<Rightarrow> string \<Rightarrow> exn + string" where
  "testAll_loop [] classes = Inr classes"
| "testAll_loop ((test, v) # rest) classes =
     (if test \<noteq> ''testAll'' \<and> test \<noteq> ''constructor'' \<and> truthy v
      then Inl TypeError
      else testAll_loop rest classes)"

definition testAll :: "receiver \<Rightarrow> env \<Rightarrow> state \<Rightarrow> (exn + jsval) \<times> state" where
  "testAll recv e s =
     (case testAll_loop (case recv of None \<Rightarrow> [] | Some ps \<Rightarrow> ps) '' js'' of
        Inl x \<Rightarrow> (Inl x, s)
      | Inr classes \<Rightarrow>
          (Inr VUndefined, s\<lparr>className := className s @ toLowerCase classes\<rparr>))"

section \<open>Sequences of calls\<close>

datatype call = CallProbe probe | CallTestAll receiver

fun exec :: "call \<Rightarrow> env \<Rightarrow> state \<Rightarrow> (exn + jsval) \<times> state" where
  "exec (CallProbe p) e s = run_probe p e s"
| "exec (CallTestAll recv) e s = testAll recv e s"

text \<open>
  The state after a sequence of calls, each made in the environment of its moment
  (a caller that catches goes on after a call that raised).
\<close>

fun run :: "(env \<times> call) list \<Rightarrow> state \<Rightarrow> state" where
  "run [] s = s"
| "run ((e, c) # cs) s = run cs (snd (exec c e s))"

text \<open>
  Calls of the resolver alone, each with the style object as it is at that moment.
\<close>

fun pfx_calls :: "env \<Rightarrow> ((string \<Rightarrow> bool) \<times> string) list \<Rightarrow> state \<Rightarrow> state" where
  "pfx_calls e [] s = s"
| "pfx_calls e ((sh, q) # qs) s =
     pfx_calls e qs (snd (pfx (e\<lparr>style_has := sh\<rparr>) q s))"

section \<open>Hosts whose DOM may fail\<close>

text \<open>
  The probes above are written for a host in which \<^verbatim>\<open>document.createElement\<close>
  returns an element and the dummy element of the resolver has a style object. A host
  in general adds what may go wrong there:
  \<^item> \<open>base\<close>: what the host answers where its DOM works;
  \<^item> \<open>createElement_raises tag\<close>: the exception \<^verbatim>\<open>document.createElement(tag)\<close>
    raises, \<open>None\<close> when it returns the element \<open>create (base h) tag\<close>;
  \<^item> \<open>dummy_has_style\<close>: the value \<^verbatim>\<open>document.createElement("dummy").style\<close> the
    resolver took at load is an object (it is undefined where the document gives the
    element no style, as an SVG document does).
  Reading a property of \<^verbatim>\<open>window\<close>, \<^verbatim>\<open>document\<close>, \<^verbatim>\<open>navigator\<close> or the root element
  returns in every host.
\<close>

record host =
  base :: env
  createElement_raises :: "string \<Rightarrow> exn option"
  dummy_has_style :: bool

text \<open>\<^verbatim>\<open>util.create(el)\<close>.\<close>

definition util_create :: "host \<Rightarrow> string \<Rightarrow> exn + element" where
  "util_create h tag =
     (case createElement_raises h tag of
        Some x \<Rightarrow> Inl x
      | None \<Rightarrow> Inr (create (base h) tag))"

text \<open>
  \<^verbatim>\<open>util.pfx\<close> in any host. Without a style object the look-up
  \<^verbatim>\<open>style[props[i]]\<close> raises TypeError in the first pass of the loop (the list of
  candidates is never empty), after \<^verbatim>\<open>memory[prop] = null\<close> has been stored.
\<close>

definition pfx_host :: "host \<Rightarrow> string \<Rightarrow> state \<Rightarrow> (exn + jsval) \<times> state" where
  "pfx_host h prop s =
     (if dummy_has_style h then (let (r, s') = pfx (base h) prop s in (Inr r, s'))
      else if memory_get (base h) s prop = VUndefined
           then (Inl TypeError, s\<lparr>memory := (memory s)(prop \<mapsto> VNull)\<rparr>)
           else (Inr (memory_get (base h) s prop), s))"

text \<open>The probes that call the resolver or \<^verbatim>\<open>util.create\<close>, in any host.\<close>

definition css3Dtransform_host :: "host \<Rightarrow> state \<Rightarrow> (exn + jsval) \<times> state" where
  "css3Dtransform_host h s =
     (if old s then (Inr (VBool False), s)
      else (case pfx_host h ''perspective'' s of
              (Inl x, s') \<Rightarrow> (Inl x, s')
            | (Inr r, s') \<Rightarrow> (Inr (VBool (r \<noteq> VNull)), s')))"

definition cssTransform_host :: "host \<Rightarrow> state \<Rightarrow> (exn + jsval) \<times> state" where
  "cssTransform_host h s =
     (if old s then (Inr (VBool False), s)
      else (case pfx_host h ''transformOrigin'' s of
              (Inl x, s') \<Rightarrow> (Inl x, s')
            | (Inr r, s') \<Rightarrow> (Inr (VBool (r \<noteq> VNull)), s')))"

definition cssTransition_host :: "host \<Rightarrow> state \<Rightarrow> (exn + jsval) \<times> state" where
  "cssTransition_host h s =
     (case pfx_host h ''transition'' s of
        (Inl x, s') \<Rightarrow> (Inl x, s')
      | (Inr r, s') \<Rightarrow> (Inr (VBool (r \<noteq> VNull)), s'))"

definition placeholder_host :: "host \<Rightarrow> exn + jsval" where
  "placeholder_host h =
     (case util_create h ''input'' of
        Inl x \<Rightarrow> Inl x
      | Inr el \<Rightarrow> Inr (VBool (el_has el ''placeholder'')))"

text \<open>The element is created before the \<^verbatim>\<open>try\<close> block is entered.\<close>

definition viewportUnit_host :: "host \<Rightarrow> exn + jsval" where
  "viewportUnit_host h =
     (case util_create h ''dummy'' of
        Inl x \<Rightarrow> Inl x
      | Inr el \<Rightarrow> Inr (case unit_try el ''1vw'' of Inl err \<Rightarrow> VBool False | Inr v \<Rightarrow> v))"

definition remUnit_host :: "host \<Rightarrow> exn + jsval" where
  "remUnit_host h =
     (case util_create h ''dummy'' of
        Inl x \<Rightarrow> Inl x
      | Inr el \<Rightarrow> Inr (case unit_try el ''1rem'' of Inl err \<Rightarrow> VBool False | Inr v \<Rightarrow> v))"

definition canvas_host :: "host \<Rightarrow> exn + jsval" where
  "canvas_host h =
     (case util_create h ''dummy'' of
        Inl x \<Rightarrow> Inl x
      | Inr el \<Rightarrow>
          (case el_getContext el of
             None \<Rightarrow> Inr (VBool False)
           | Some f \<Rightarrow>
               (case f ''2d'' of Inl x \<Rightarrow> Inl x | Inr c \<Rightarrow> Inr (VBool (truthy c)))))"

definition webGL_host :: "host \<Rightarrow> exn + jsval" where
  "webGL_host h =
     (case util_create h ''dummy'' of
        Inl x \<Rightarrow> Inl x
      | Inr el \<Rightarrow>
          Inr (case webGL_try (base h) el of Inl err \<Rightarrow> VBool False | Inr v \<Rightarrow> v))"

definition async_host :: "host \<Rightarrow> exn + jsval" where
  "async_host h =
     (case util_create h ''script'' of
        Inl x \<Rightarrow> Inl x
      | Inr el \<Rightarrow> Inr (VBool (el_has el ''async'')))"

definition defer_host :: "host \<Rightarrow> exn + jsval" where
  "defer_host h =
     (case util_create h ''script'' of
        Inl x \<Rightarrow> Inl x
      | Inr el \<Rightarrow> Inr (VBool (el_has el ''defer'')))"

definition srcset_host :: "host \<Rightarrow> exn + jsval" where
  "srcset_host h =
     (case util_create h ''img'' of
        Inl x \<Rightarrow> Inl x
      | Inr el \<Rightarrow> Inr (VBool (el_has el ''srcset'')))"

definition sizes_host :: "host \<Rightarrow> exn + jsval" where
  "sizes_host h =
     (case util_create h ''img'' of
        Inl x \<Rightarrow> Inl x
      | Inr el \<Rightarrow> Inr (VBool (el_has el ''sizes'')))"

text \<open>
  A call \<^verbatim>\<open>feature.name()\<close> in any host. The probes not listed above touch neither
  \<^verbatim>\<open>util.create\<close> nor the resolver and are as in \<open>run_probe\<close>.
\<close>

fun call_probe :: "probe \<Rightarrow> host \<Rightarrow> state \<Rightarrow> (exn + jsval) \<times> state" where
  "call_probe Css3Dtransform h s = css3Dtransform_host h s"
| "call_probe CssTransform h s = cssTransform_host h s"
| "call_probe CssTransition h s = cssTransition_host h s"
| "call_probe Placeholder h s = (placeholder_host h, s)"
| "call_probe ViewportUnit h s = (viewportUnit_host h, s)"
| "call_probe RemUnit h s = (remUnit_host h, s)"
| "call_probe Canvas h s = (canvas_host h, s)"
| "call_probe WebGL h s = (webGL_host h, s)"
| "call_probe Async h s = (async_host h, s)"
| "call_probe Defer h s = (defer_host h, s)"
| "call_probe Srcset h s = (srcset_host h, s)"
| "call_probe Sizes h s = (sizes_host h, s)"
| "call_probe p h s = run_probe p (base h) s"

text \<open>A host whose DOM works, around an environment.\<close>

definition working :: "env \<Rightarrow> host" where
  "working e = \<lparr> base = e, createElement_raises = (\<lambda>tag. None), dummy_has_style = True \<rparr>"

section \<open>Notions used in the statements\<close>

text \<open>
  The names a scan looks at when it goes through a list and stops at the first one
  that satisfies \<open>P\<close>, and the answer of such a scan as the resolver gives it.
\<close>

fun upto_first :: "('a \<Rightarrow> bool) \<Rightarrow> 'a list \<Rightarrow> 'a list" where
  "upto_first P [] = []"
| "upto_first P (x # xs) = (if P x then [x] else x # upto_first P xs)"

definition first_supported :: "(string \<Rightarrow> bool) \<Rightarrow> string list \<Rightarrow> jsval" where
  "first_supported has cs = (case find has cs of None \<Rightarrow> VNull | Some c \<Rightarrow> VStr c)"

text \<open>A completion that is a return, not a raised exception.\<close>

definition returns :: "exn + 'a \<Rightarrow> bool" where
  "returns r = (case r of Inl x \<Rightarrow> False | Inr v \<Rightarrow> True)"


text \<open>
  The probes that perform nothing outside a \<^verbatim>\<open>try\<close> block but reads of properties;
  the tag of the element a probe creates with \<^verbatim>\<open>util.create\<close> before anything else;
  and the value of \<^verbatim>\<open>window.navigator && window.navigator.msPointerEnabled &&
  window.MSGesture\<close> in \<^verbatim>\<open>touch\<close>.
\<close>

definition reads_only :: "probe list" where
  "reads_only =
     [AddEventListener, QuerySelectorAll, MatchMedia, DeviceMotion, DeviceOrientation,
      ContextMenu, ClassList, LocalStorage, ServiceWorker, Geolocation, PictureElement]"

definition creates_only :: "probe list" where
  "creates_only =
     [Placeholder, ViewportUnit, RemUnit, WebGL, Async, Defer, Srcset, Sizes]"

fun created_tag :: "probe \<Rightarrow> string option" where
  "created_tag Placeholder = Some ''input''"
| "created_tag ViewportUnit = Some ''dummy''"
| "created_tag RemUnit = Some ''dummy''"
| "created_tag Canvas = Some ''dummy''"
| "created_tag WebGL = Some ''dummy''"
| "created_tag Async = Some ''script''"
| "created_tag Defer = Some ''script''"
| "created_tag Srcset = Some ''img''"
| "created_tag Sizes = Some ''img''"
| "created_tag p = None"

definition gesture_value :: "env \<Rightarrow> jsval" where
  "gesture_value e =
     (let nav = window_get e ''navigator''
      in if truthy nav
         then js_and (msPointerEnabled_of e nav) (window_get e ''MSGesture'')
         else nav)"

text \<open>The probes in the order of the catalog, and those a state and environment support.\<close>

definition all_probes :: "probe list" where
  "all_probes =
     [Css3Dtransform, CssTransform, CssTransition, AddEventListener, QuerySelectorAll,
      MatchMedia, DeviceMotion, DeviceOrientation, ContextMenu, ClassList, Placeholder,
      LocalStorage, HistoryAPI, ServiceWorker, ViewportUnit, RemUnit, Canvas, Svg,
      WebGL, Cors, Touch, Async, Defer, Geolocation, Srcset, Sizes, PictureElement]"

definition supported :: "env \<Rightarrow> state \<Rightarrow> probe list" where
  "supported e s =
     filter (\<lambda>p. case fst (run_probe p e s) of Inl x \<Rightarrow> False | Inr v \<Rightarrow> truthy v)
       all_probes"

text \<open>The tokens of a class attribute, and how many of them are \<^verbatim>\<open>js\<close>.\<close>

definition tokens :: "string \<Rightarrow> string list" where
  "tokens cls = filter (\<lambda>w. w \<noteq> []) (split_sp cls)"

definition js_count :: "string \<Rightarrow> nat" where
  "js_count cls = count_list (tokens cls) ''js''"

text \<open>The probes that read the prefix resolver.\<close>

definition uses_resolver :: "probe \<Rightarrow> bool" where
  "uses_resolver p = (p = Css3Dtransform \<or> p = CssTransform \<or> p = CssTransition)"


section \<open>Example environments\<close>

text \<open>
  The members every object inherits from \<^verbatim>\<open>Object.prototype\<close> in a standard
  ECMAScript host.
\<close>

definition object_prototype :: "string \<Rightarrow> jsval option" where
  "object_prototype =
     map_of (map (\<lambda>k. (k, VObject))
       [''constructor'', ''toString'', ''toLocaleString'', ''valueOf'',
        ''hasOwnProperty'', ''isPrototypeOf'', ''propertyIsEnumerable''])"

text \<open>An element with no property the probes ask for, whose width does not take.\<close>

definition bare_element :: element where
  "bare_element =
     \<lparr> el_has = (\<lambda>name. False), el_getContext = None,
       el_style_width = (\<lambda>v. Inr (VStr [])) \<rparr>"

text \<open>A host that supports none of the features.\<close>

definition env_none :: env where
  "env_none =
     \<lparr> userAgent = ''Mozilla/5.0 (X11; Linux x86_64)'',
       docEl_className = ''no-js'',
       proto = object_prototype,
       style_has = (\<lambda>name. False),
       window = Map.empty,
       docEl_has = (\<lambda>name. False),
       navigator_has = (\<lambda>name. False),
       history_has = (\<lambda>name. False),
       localStorage_has = (\<lambda>name. False),
       document_querySelectorAll = VUndefined,
       document_createElementNS = None,
       create = (\<lambda>tag. bare_element),
       localStorage_ref = Inl ReferenceError,
       navigator_msPointerEnabled = VUndefined,
       new_XMLHttpRequest = Inl TypeError,
       document_instanceof_DocumentTouch = Inl TypeError \<rparr>"

text \<open>A host where exactly \<^verbatim>\<open>canvas\<close> and \<^verbatim>\<open>svg\<close> are supported.\<close>

definition env_canvas_svg :: env where
  "env_canvas_svg =
     env_none
       \<lparr> document_createElementNS :=
           Some (Inr (\<lambda>name. if name = ''createSVGRect'' then VObject else VUndefined)),
         create := (\<lambda>tag. bare_element
           \<lparr> el_getContext :=
               Some (\<lambda>arg. if arg = ''2d'' then Inr VObject else Inr VNull) \<rparr>) \<rparr>"

text \<open>
  A host where a script has set \<^verbatim>\<open>window.XMLHttpRequest = null\<close>: the name is in
  \<^verbatim>\<open>window\<close>, the value is no constructor.
\<close>

definition env_xhr_null :: env where
  "env_xhr_null = env_none \<lparr> window := [''XMLHttpRequest'' \<mapsto> VNull] \<rparr>"

text \<open>
  An old Android stock browser whose style object knows the prefixed transform
  properties and the prefixed transition.
\<close>

definition env_android2 :: env where
  "env_android2 =
     env_none
       \<lparr> userAgent :=
           ''Mozilla/5.0 (Linux; U; Android 2.3.6; en-us; Nexus S) AppleWebKit/533.1'',
         style_has := (\<lambda>name. name \<in> {''WebkitPerspective'', ''WebkitTransformOrigin'',
                                        ''WebkitTransition''}) \<rparr>"

text \<open>
  A host where storage access is denied, where assigning a width raises, and where
  the WebGL constructor exists but asking for a context raises.
\<close>

definition env_raising :: env where
  "env_raising =
     env_none
       \<lparr> window := [''WebGLRenderingContext'' \<mapsto> VObject],
         create := (\<lambda>tag. bare_element
           \<lparr> el_getContext := Some (\<lambda>arg. Inl (HostError ''InvalidStateError'')),
             el_style_width := (\<lambda>v. Inl (HostError ''Invalid argument'')) \<rparr>),
         localStorage_ref := Inl (HostError ''SecurityError'') \<rparr>"

text \<open>
  A host with WebGL: the constructor exists, \<^verbatim>\<open>"webgl"\<close> gives nothing and
  \<^verbatim>\<open>"experimental-webgl"\<close> gives a context; and the same host with the constructor
  taken away.
\<close>

definition env_webgl :: env where
  "env_webgl =
     env_none
       \<lparr> window := [''WebGLRenderingContext'' \<mapsto> VObject],
         create := (\<lambda>tag. bare_element
           \<lparr> el_getContext :=
               Some (\<lambda>arg. if arg = ''experimental-webgl'' then Inr VObject
                           else Inr VNull) \<rparr>) \<rparr>"

definition env_webgl_no_constructor :: env where
  "env_webgl_no_constructor = env_webgl \<lparr> window := Map.empty \<rparr>"

text \<open>
  A host with the constructor where \<^verbatim>\<open>"webgl"\<close> gives nothing and asking for
  \<^verbatim>\<open>"experimental-webgl"\<close> raises.
\<close>

definition env_webgl_fallback_raises :: env where
  "env_webgl_fallback_raises =
     env_webgl
       \<lparr> create := (\<lambda>tag. bare_element
           \<lparr> el_getContext :=
               Some (\<lambda>arg. if arg = ''webgl'' then Inr VNull else Inl TypeError) \<rparr>) \<rparr>"


text \<open>
  A host where \<^verbatim>\<open>document.createElement\<close> raises, and a document that gives the
  dummy element no style object.
\<close>

definition host_create_raises :: host where
  "host_create_raises =
     \<lparr> base = env_webgl,
       createElement_raises = (\<lambda>tag. Some (HostError ''createElement'')),
       dummy_has_style = True \<rparr>"

definition host_no_style :: host where
  "host_no_style =
     \<lparr> base = env_none, createElement_raises = (\<lambda>tag. None), dummy_has_style = False \<rparr>"

section \<open>Strings: the candidate list\<close>

lemma split_sp_ne: "split_sp s \<noteq> []"
  by (induction s) (auto split: list.splits)






section \<open>The prefix resolver\<close>

lemma pfx_loop_memory:
  "memory (pfx_loop e p cs s) =
     (case find (style_has e) cs of None \<Rightarrow> memory s | Some c \<Rightarrow> (memory s)(p \<mapsto> VStr c))"
  by (induction cs arbitrary: s) (simp_all add: Let_def split: option.splits)

lemma pfx_loop_checked:
  "checked (pfx_loop e p cs s) = checked s @ upto_first (style_has e) cs"
  by (induction cs arbitrary: s) (simp_all add: Let_def)

lemma pfx_loop_old: "old (pfx_loop e p cs s) = old s"
  by (induction cs arbitrary: s) (simp_all add: Let_def)

lemma pfx_loop_className: "className (pfx_loop e p cs s) = className s"
  by (induction cs arbitrary: s) (simp_all add: Let_def)

lemma pfx_old: "old (snd (pfx e p s)) = old s"
  by (simp add: pfx_def Let_def pfx_loop_old)

lemma pfx_className: "className (snd (pfx e p s)) = className s"
  by (simp add: pfx_def Let_def pfx_loop_className)

lemma pfx_scan_memory:
  "memory (pfx_loop e p cs (s\<lparr>memory := (memory s)(p \<mapsto> VNull)\<rparr>)) =
     (memory s)(p \<mapsto> first_supported (style_has e) cs)"
  by (simp add: pfx_loop_memory first_supported_def split: option.splits)

lemma first_supported_defined: "first_supported has cs \<noteq> VUndefined"
  by (simp add: first_supported_def split: option.splits)

lemma pfx_first:
  assumes "memory_get e s p = VUndefined"
  shows "fst (pfx e p s) = first_supported (style_has e) (props p)"
    and "memory (snd (pfx e p s)) = (memory s)(p \<mapsto> first_supported (style_has e) (props p))"
    and "checked (snd (pfx e p s)) = checked s @ upto_first (style_has e) (props p)"
  using assms by (simp_all add: pfx_def Let_def pfx_scan_memory pfx_loop_checked memory_get_def)

lemma pfx_again:
  assumes "memory_get e s p \<noteq> VUndefined"
  shows "pfx e p s = (memory_get e s p, s)"
  using assms by (simp add: pfx_def)

lemma memory_get_style: "memory_get (e\<lparr>style_has := sh\<rparr>) s p = memory_get e s p"
  by (simp add: memory_get_def split: option.splits)

lemma pfx_result_kept:
  "memory_get e (snd (pfx e p s)) p = fst (pfx e p s)"
  by (simp add: pfx_def Let_def)

lemma pfx_result_defined: "fst (pfx e p s) \<noteq> VUndefined"
proof (cases "memory_get e s p = VUndefined")
  case True
  then show ?thesis by (simp add: pfx_first(1) first_supported_defined)
next
  case False
  then show ?thesis by (simp add: pfx_again)
qed

lemma pfx_frame:
  assumes "memory_get e s p \<noteq> VUndefined"
  shows "memory_get e (snd (pfx (e\<lparr>style_has := sh\<rparr>) q s)) p = memory_get e s p"
proof (cases "q = p")
  case True
  with assms show ?thesis by (simp add: pfx_again memory_get_style)
next
  case False
  show ?thesis
  proof (cases "memory_get (e\<lparr>style_has := sh\<rparr>) s q = VUndefined")
    case True
    from pfx_first(2)[OF True] False show ?thesis by (simp add: memory_get_def)
  next
    case False
    then show ?thesis by (simp add: pfx_again)
  qed
qed

lemma pfx_calls_frame:
  assumes "memory_get e s p \<noteq> VUndefined"
  shows "memory_get e (pfx_calls e qs s) p = memory_get e s p"
  using assms
proof (induction qs arbitrary: s)
  case Nil
  then show ?case by simp
next
  case (Cons a qs)
  obtain sh q where a: "a = (sh, q)" by (cases a)
  let ?s1 = "snd (pfx (e\<lparr>style_has := sh\<rparr>) q s)"
  have k: "memory_get e ?s1 p = memory_get e s p" using Cons.prems by (rule pfx_frame)
  with Cons.prems have "memory_get e ?s1 p \<noteq> VUndefined" by simp
  from Cons.IH[OF this] k a show ?case by simp
qed

lemma pfx_memoized_s:
  "pfx (e\<lparr>style_has := sh\<rparr>) p (pfx_calls e qs (snd (pfx e p s)))
     = (fst (pfx e p s), pfx_calls e qs (snd (pfx e p s)))"
proof -
  let ?s1 = "snd (pfx e p s)" and ?r = "fst (pfx e p s)"
  have d: "memory_get e ?s1 p \<noteq> VUndefined"
    by (simp add: pfx_result_kept pfx_result_defined)
  have "memory_get e (pfx_calls e qs ?s1) p = ?r"
    using pfx_calls_frame[OF d] by (simp add: pfx_result_kept)
  then have g: "memory_get (e\<lparr>style_has := sh\<rparr>) (pfx_calls e qs ?s1) p = ?r"
    by (simp add: memory_get_style)
  with pfx_result_defined[of e p s] have "memory_get (e\<lparr>style_has := sh\<rparr>) (pfx_calls e qs ?s1) p \<noteq> VUndefined"
    by simp
  from pfx_again[OF this] g show ?thesis by simp
qed


subsection \<open>The memo table holds what a scan would find\<close>











text \<open>
  \<^bold>\<open>C4\<close>. After a first call \<^verbatim>\<open>util.pfx(p)\<close>, whatever other names are resolved in
  between and whatever the style object holds by then, a further call with the same
  \<open>p\<close> returns the result of the first call and leaves the whole state as it was:
  the memo table, and the log of look-ups in the style object, which gets no new
  entry.
\<close>

theorem pfx_memoized:
  "pfx (e\<lparr>style_has := sh\<rparr>) p (pfx_calls e qs (snd (pfx e p s)))
     = (fst (pfx e p s), pfx_calls e qs (snd (pfx e p s)))
   \<and> checked (snd (pfx (e\<lparr>style_has := sh\<rparr>) p (pfx_calls e qs (snd (pfx e p s)))))
     = checked (pfx_calls e qs (snd (pfx e p s)))"
proof -
  note m = pfx_memoized_s [where e = e and sh = sh and p = p and qs = qs and s = s]
  from m have "snd (pfx (e\<lparr>style_has := sh\<rparr>) p (pfx_calls e qs (snd (pfx e p s))))
     = pfx_calls e qs (snd (pfx e p s))" by (simp only: snd_conv)
  with m show ?thesis by (simp only: simp_thms)
qed

section \<open>What the calls leave alone\<close>

lemma testAll_raises: "testAll (Some Feature_object) e s = (Inl TypeError, s)"
  by (simp add: testAll_def Feature_object_def Feature_keys_def)

lemma testAll_old: "old (snd (testAll recv e s)) = old s"
  by (simp add: testAll_def split: sum.splits)

lemma css3Dtransform_old: "old (snd (css3Dtransform e s)) = old s"
  by (simp add: css3Dtransform_def split_def Let_def pfx_old)

lemma cssTransform_old: "old (snd (cssTransform e s)) = old s"
  by (simp add: cssTransform_def split_def Let_def pfx_old)

lemma cssTransition_old: "old (snd (cssTransition e s)) = old s"
  by (simp add: cssTransition_def split_def Let_def pfx_old)

lemma css3Dtransform_className: "className (snd (css3Dtransform e s)) = className s"
  by (simp add: css3Dtransform_def split_def Let_def pfx_className)

lemma cssTransform_className: "className (snd (cssTransform e s)) = className s"
  by (simp add: cssTransform_def split_def Let_def pfx_className)

lemma cssTransition_className: "className (snd (cssTransition e s)) = className s"
  by (simp add: cssTransition_def split_def Let_def pfx_className)

lemma run_probe_old: "old (snd (run_probe p e s)) = old s"
  by (cases p)
     (simp_all add: split_def Let_def css3Dtransform_old cssTransform_old cssTransition_old)

lemma run_probe_className: "className (snd (run_probe p e s)) = className s"
  by (cases p)
     (simp_all add: split_def Let_def css3Dtransform_className cssTransform_className
        cssTransition_className)

lemma exec_old: "old (snd (exec c e s)) = old s"
  by (cases c) (simp_all add: run_probe_old testAll_old)

lemma run_old: "old (run cs s) = old s"
proof (induction cs arbitrary: s)
  case Nil
  show ?case by simp
next
  case (Cons a cs)
  obtain e c where a: "a = (e, c)" by (cases a)
  have "old (run (a # cs) s) = old (snd (exec c e s))"
    unfolding a run.simps by (rule Cons.IH)
  then show ?case by (simp only: exec_old)
qed

section \<open>Determinism of the probes\<close>





section \<open>The denylist flag\<close>

lemma pfx_loop_userAgent: "pfx_loop (e\<lparr>userAgent := u\<rparr>) p cs s = pfx_loop e p cs s"
  by (induction cs arbitrary: s) (simp_all add: Let_def)

lemma memory_get_userAgent: "memory_get (e\<lparr>userAgent := u\<rparr>) s p = memory_get e s p"
  by (simp add: memory_get_def split: option.splits)

lemma pfx_userAgent: "pfx (e\<lparr>userAgent := u\<rparr>) p s = pfx e p s"
  by (simp add: pfx_def memory_get_userAgent pfx_loop_userAgent)

lemma css3Dtransform_userAgent: "css3Dtransform (e\<lparr>userAgent := u\<rparr>) s = css3Dtransform e s"
  by (simp add: css3Dtransform_def pfx_userAgent)

lemma cssTransform_userAgent: "cssTransform (e\<lparr>userAgent := u\<rparr>) s = cssTransform e s"
  by (simp add: cssTransform_def pfx_userAgent)

lemma cssTransition_userAgent: "cssTransition (e\<lparr>userAgent := u\<rparr>) s = cssTransition e s"
  by (simp add: cssTransition_def pfx_userAgent)

lemma run_probe_userAgent: "run_probe p (e\<lparr>userAgent := u\<rparr>) s = run_probe p e s"
proof (cases p)
  case Css3Dtransform
  then show ?thesis by (simp add: css3Dtransform_userAgent)
next
  case CssTransform
  then show ?thesis by (simp add: cssTransform_userAgent)
next
  case CssTransition
  then show ?thesis by (simp add: cssTransition_userAgent)
qed (simp_all add: addEventListener_def querySelectorAll_def matchMedia_def
      deviceMotion_def deviceOrientation_def contextMenu_def classList_def
      placeholder_def localStorage_def localStorage_try_def historyAPI_def
      serviceWorker_def viewportUnit_def remUnit_def canvas_def svg_def webGL_def
      webGL_try_def cors_def construct_XMLHttpRequest_def touch_def
      msPointerEnabled_of_def instanceof_DocumentTouch_def async_def defer_attr_def
      geolocation_def srcset_def sizes_def pictureElement_def window_get_def
      in_window_def Let_def
      cong: sum.case_cong option.case_cong jsval.case_cong bool.case_cong if_cong)

lemma exec_userAgent: "exec c (e\<lparr>userAgent := u\<rparr>) s = exec c e s"
  by (cases c) (simp_all add: run_probe_userAgent testAll_def)

lemma run_userAgent:
  "run (map (\<lambda>(e, c). (e\<lparr>userAgent := ua e\<rparr>, c)) cs) s = run cs s"
proof (induction cs arbitrary: s)
  case Nil
  show ?case by simp
next
  case (Cons a cs)
  obtain e c where a: "a = (e, c)" by (cases a)
  show ?case unfolding a by (simp add: exec_userAgent Cons.IH)
qed

lemma run_probe_state_free:
  assumes "\<not> uses_resolver p"
  shows "fst (run_probe p e s) = fst (run_probe p e s')"
  using assms by (cases p) (simp_all add: uses_resolver_def)

lemma memory_get_old_update: "memory_get e (s\<lparr>old := b\<rparr>) p = memory_get e s p"
  by (simp add: memory_get_def)

lemma pfx_old_update: "fst (pfx e p (s\<lparr>old := b\<rparr>)) = fst (pfx e p s)"
proof (cases "memory_get e s p = VUndefined")
  case True
  then have "memory_get e (s\<lparr>old := b\<rparr>) p = VUndefined"
    by (simp add: memory_get_old_update)
  from pfx_first(1)[OF this] pfx_first(1)[OF True] show ?thesis by simp
next
  case False
  then have "memory_get e (s\<lparr>old := b\<rparr>) p \<noteq> VUndefined"
    by (simp add: memory_get_old_update)
  from pfx_again[OF this] pfx_again[OF False] show ?thesis
    by (simp add: memory_get_old_update)
qed

lemma android2_old: "old_test (userAgent env_android2)"
  by code_simp

lemma android2_perspective:
  "fst (pfx env_android2 ''perspective'' (init env_android2)) = VStr ''WebkitPerspective''"
  by code_simp

lemma android2_transition:
  "fst (pfx env_android2 ''transition'' (init env_android2)) = VStr ''WebkitTransition''"
  by code_simp

lemma not_resolver_canvas: "\<not> uses_resolver Canvas"
  by (simp add: uses_resolver_def)

text \<open>
  \<^bold>\<open>C10\<close>. After any sequence of calls, each in whatever host it finds, the flag
  \<^verbatim>\<open>util.old\<close> is what the pattern gave on the user agent at initialisation; replacing
  the user agent in every later host changes nothing in the run, and
  \<^verbatim>\<open>css3Dtransform\<close> and \<^verbatim>\<open>cssTransform\<close> give the same completion and state under a
  changed user agent. A probe that does not read the resolver is computed from the
  host of the call alone: its result is the same in every state of the module.
\<close>

theorem old_fixed_at_init:
  "old (run cs (init e0)) = old_test (userAgent e0)
   \<and> run (map (\<lambda>(e, c). (e\<lparr>userAgent := ua e\<rparr>, c)) cs) (init e0) = run cs (init e0)
   \<and> css3Dtransform (e\<lparr>userAgent := u\<rparr>) (run cs (init e0))
       = css3Dtransform e (run cs (init e0))
   \<and> cssTransform (e\<lparr>userAgent := u\<rparr>) (run cs (init e0))
       = cssTransform e (run cs (init e0))
   \<and> (\<not> uses_resolver p \<longrightarrow> fst (run_probe p e s) = fst (run_probe p e s'))"
proof -
  have "old (run cs (init e0)) = old (init e0)" by (rule run_old)
  then have a: "old (run cs (init e0)) = old_test (userAgent e0)" by (simp add: init_def)
  have b: "\<not> uses_resolver p \<longrightarrow> fst (run_probe p e s) = fst (run_probe p e s')"
    by (rule impI) (rule run_probe_state_free)
  show ?thesis
    by (intro conjI) (rule a, rule run_userAgent, rule css3Dtransform_userAgent,
        rule cssTransform_userAgent, rule b)
qed

text \<open>
  Witness for \<^bold>\<open>C10\<close>: the module is initialised on an old Android browser; after a
  call made in another host the flag is still set, and \<^verbatim>\<open>canvas\<close>, which does not read
  the resolver, answers alike in two states.
\<close>

theorem old_fixed_at_init_witness:
  "\<not> uses_resolver Canvas
   \<and> old (run [(env_none, CallProbe Css3Dtransform)] (init env_android2))
   \<and> fst (run_probe Canvas env_canvas_svg (init env_none))
       = fst (run_probe Canvas env_canvas_svg (init env_android2))"
proof -
  note t = old_fixed_at_init
    [where ?e0.0 = env_android2 and cs = "[(env_none, CallProbe Css3Dtransform)]"
       and p = Canvas and e = env_canvas_svg and s = "init env_none"
       and s' = "init env_android2"]
  from t android2_old
  have 1: "old (run [(env_none, CallProbe Css3Dtransform)] (init env_android2))" by blast
  from t not_resolver_canvas
  have 2: "fst (run_probe Canvas env_canvas_svg (init env_none))
       = fst (run_probe Canvas env_canvas_svg (init env_android2))" by blast
  from not_resolver_canvas 1 2 show ?thesis by blast
qed

text \<open>
  \<^bold>\<open>C6\<close>. If the user agent at initialisation matches the denylist pattern, then
  after any sequence of calls and in any host \<^verbatim>\<open>css3Dtransform()\<close> and
  \<^verbatim>\<open>cssTransform()\<close> return false and leave the state alone (the resolver is not
  even asked), whatever the style object recognises; \<^verbatim>\<open>cssTransition()\<close> is true
  exactly when the resolver gives a name for \<^verbatim>\<open>transition\<close>, and its result does not
  depend on the flag.
\<close>

theorem denylist_overrides:
  assumes "old_test (userAgent e0)"
  shows "css3Dtransform e (run cs (init e0)) = (VBool False, run cs (init e0))
       \<and> cssTransform e (run cs (init e0)) = (VBool False, run cs (init e0))
       \<and> fst (cssTransition e (run cs (init e0)))
           = VBool (fst (pfx e ''transition'' (run cs (init e0))) \<noteq> VNull)
       \<and> fst (cssTransition e (s\<lparr>old := b\<rparr>)) = fst (cssTransition e s)"
proof -
  have "old (run cs (init e0)) = old (init e0)" by (rule run_old)
  with assms have o: "old (run cs (init e0))" by (simp add: init_def)
  have a: "css3Dtransform e (run cs (init e0)) = (VBool False, run cs (init e0))"
    using o by (simp add: css3Dtransform_def)
  have b: "cssTransform e (run cs (init e0)) = (VBool False, run cs (init e0))"
    using o by (simp add: cssTransform_def)
  have c: "fst (cssTransition e (run cs (init e0)))
           = VBool (fst (pfx e ''transition'' (run cs (init e0))) \<noteq> VNull)"
    by (simp add: cssTransition_def split_def Let_def)
  have d: "fst (cssTransition e (s\<lparr>old := b\<rparr>)) = fst (cssTransition e s)"
    by (simp add: cssTransition_def split_def Let_def pfx_old_update)
  show ?thesis by (intro conjI) (rule a, rule b, rule c, rule d)
qed

text \<open>
  Witness for \<^bold>\<open>C6\<close>: an Android 2.3 browser whose style object knows
  \<^verbatim>\<open>WebkitPerspective\<close>: the resolver finds it, the two probes behind the denylist are false, and
  \<^verbatim>\<open>cssTransition\<close> is true.
\<close>

theorem denylist_overrides_witness:
  "old_test (userAgent env_android2)
   \<and> fst (pfx env_android2 ''perspective'' (init env_android2)) = VStr ''WebkitPerspective''
   \<and> css3Dtransform env_android2 (init env_android2) = (VBool False, init env_android2)
   \<and> cssTransform env_android2 (init env_android2) = (VBool False, init env_android2)
   \<and> fst (cssTransition env_android2 (init env_android2)) = VBool True"
proof -
  note t = denylist_overrides [OF android2_old, of env_android2 "[]", unfolded run.simps]
  have "fst (cssTransition env_android2 (init env_android2)) = VBool True"
    using t android2_transition by simp
  with t android2_old android2_perspective show ?thesis by blast
qed

section \<open>Probes that catch\<close>

lemma localStorage_denied:
  assumes "localStorage_ref e = Inl x"
  shows "localStorage e = VBool False"
  using assms by (simp add: localStorage_def localStorage_try_def)

lemma unit_raises:
  assumes "el_style_width (create e ''dummy'') u = Inl x"
  shows "(case unit_try (create e ''dummy'') u of Inl err \<Rightarrow> VBool False | Inr v \<Rightarrow> v)
         = VBool False"
  using assms by (simp add: unit_try_def)

lemma webGL_first_raises:
  assumes "call_getContext (create e ''dummy'') ''webgl'' = Inl x"
  shows "webGL e = VBool False"
  using assms by (simp add: webGL_def webGL_try_def Let_def)

lemma webGL_second_raises:
  assumes "call_getContext (create e ''dummy'') ''webgl'' = Inr c" and "\<not> truthy c"
    and "call_getContext (create e ''dummy'') ''experimental-webgl'' = Inl x"
  shows "webGL e = VBool False"
  using assms by (simp add: webGL_def webGL_try_def Let_def)

lemma raising_facts:
  "localStorage_ref env_raising = Inl (HostError ''SecurityError'')"
  "el_style_width (create env_raising ''dummy'') ''1vw'' = Inl (HostError ''Invalid argument'')"
  "el_style_width (create env_raising ''dummy'') ''1rem'' = Inl (HostError ''Invalid argument'')"
  "call_getContext (create env_raising ''dummy'') ''webgl'' = Inl (HostError ''InvalidStateError'')"
  by (simp_all add: env_raising_def call_getContext_def)

lemma webgl_second_facts:
  "call_getContext (create env_webgl_fallback_raises ''dummy'') ''webgl'' = Inr VNull"
  "call_getContext (create env_webgl_fallback_raises ''dummy'') ''experimental-webgl'' = Inl TypeError"
  by (simp_all add: call_getContext_def env_webgl_fallback_raises_def)

text \<open>
  \<^bold>\<open>C5\<close>. When evaluating \<^verbatim>\<open>localStorage\<close> raises, \<^verbatim>\<open>localStorage()\<close> returns
  false; when the assignment of \<^verbatim>\<open>"1vw"\<close> (of \<^verbatim>\<open>"1rem"\<close>) to the width or the read
  after it raises, \<^verbatim>\<open>viewportUnit()\<close> (\<^verbatim>\<open>remUnit()\<close>) returns false; when
  \<^verbatim>\<open>getContext("webgl")\<close> raises, or gives nothing and
  \<^verbatim>\<open>getContext("experimental-webgl")\<close> raises, \<^verbatim>\<open>webGL()\<close> returns false. In each
  case the call completes with a return and the state is unchanged.
\<close>

theorem guarded_probes_swallow:
  "(localStorage_ref e = Inl x \<longrightarrow> run_probe LocalStorage e s = (Inr (VBool False), s))
   \<and> (el_style_width (create e ''dummy'') ''1vw'' = Inl x
        \<longrightarrow> run_probe ViewportUnit e s = (Inr (VBool False), s))
   \<and> (el_style_width (create e ''dummy'') ''1rem'' = Inl x
        \<longrightarrow> run_probe RemUnit e s = (Inr (VBool False), s))
   \<and> (call_getContext (create e ''dummy'') ''webgl'' = Inl x
        \<longrightarrow> run_probe WebGL e s = (Inr (VBool False), s))
   \<and> (call_getContext (create e ''dummy'') ''webgl'' = Inr c \<and> \<not> truthy c
        \<and> call_getContext (create e ''dummy'') ''experimental-webgl'' = Inl x
        \<longrightarrow> run_probe WebGL e s = (Inr (VBool False), s))"
proof (intro conjI impI)
  assume "localStorage_ref e = Inl x"
  then show "run_probe LocalStorage e s = (Inr (VBool False), s)"
    by (simp add: localStorage_denied)
next
  assume "el_style_width (create e ''dummy'') ''1vw'' = Inl x"
  then show "run_probe ViewportUnit e s = (Inr (VBool False), s)"
    by (simp add: viewportUnit_def Let_def unit_raises)
next
  assume "el_style_width (create e ''dummy'') ''1rem'' = Inl x"
  then show "run_probe RemUnit e s = (Inr (VBool False), s)"
    by (simp add: remUnit_def Let_def unit_raises)
next
  assume "call_getContext (create e ''dummy'') ''webgl'' = Inl x"
  then show "run_probe WebGL e s = (Inr (VBool False), s)"
    by (simp add: webGL_first_raises)
next
  assume "call_getContext (create e ''dummy'') ''webgl'' = Inr c \<and> \<not> truthy c
        \<and> call_getContext (create e ''dummy'') ''experimental-webgl'' = Inl x"
  then show "run_probe WebGL e s = (Inr (VBool False), s)"
    by (simp add: webGL_second_raises)
qed

text \<open>
  Witness for \<^bold>\<open>C5\<close>: a host where each of the four operations raises, and one where
  the second request for a context does.
\<close>

theorem guarded_probes_swallow_witness:
  "localStorage_ref env_raising = Inl (HostError ''SecurityError'')
   \<and> el_style_width (create env_raising ''dummy'') ''1vw'' = Inl (HostError ''Invalid argument'')
   \<and> el_style_width (create env_raising ''dummy'') ''1rem'' = Inl (HostError ''Invalid argument'')
   \<and> call_getContext (create env_raising ''dummy'') ''webgl''
       = Inl (HostError ''InvalidStateError'')
   \<and> run_probe LocalStorage env_raising (init env_raising)
       = (Inr (VBool False), init env_raising)
   \<and> run_probe ViewportUnit env_raising (init env_raising)
       = (Inr (VBool False), init env_raising)
   \<and> run_probe RemUnit env_raising (init env_raising)
       = (Inr (VBool False), init env_raising)
   \<and> run_probe WebGL env_raising (init env_raising)
       = (Inr (VBool False), init env_raising)
   \<and> run_probe WebGL env_webgl_fallback_raises (init env_webgl)
       = (Inr (VBool False), init env_webgl)"
proof -
  note a = guarded_probes_swallow
    [where e = env_raising and x = "HostError ''SecurityError''" and s = "init env_raising"]
  note b = guarded_probes_swallow
    [where e = env_raising and x = "HostError ''Invalid argument''" and s = "init env_raising"]
  note c = guarded_probes_swallow
    [where e = env_raising and x = "HostError ''InvalidStateError''"
       and s = "init env_raising"]
  note d = guarded_probes_swallow
    [where e = env_webgl_fallback_raises
       and x = TypeError and c = VNull and s = "init env_webgl"]
  have n: "\<not> truthy VNull" by simp
  from a raising_facts(1)
  have 1: "run_probe LocalStorage env_raising (init env_raising)
       = (Inr (VBool False), init env_raising)" by blast
  from b raising_facts(2)
  have 2: "run_probe ViewportUnit env_raising (init env_raising)
       = (Inr (VBool False), init env_raising)" by blast
  from b raising_facts(3)
  have 3: "run_probe RemUnit env_raising (init env_raising)
       = (Inr (VBool False), init env_raising)" by blast
  from c raising_facts(4)
  have 4: "run_probe WebGL env_raising (init env_raising)
       = (Inr (VBool False), init env_raising)" by blast
  from d webgl_second_facts n
  have 5: "run_probe WebGL env_webgl_fallback_raises (init env_webgl)
       = (Inr (VBool False), init env_webgl)" by blast
  from raising_facts 1 2 3 4 5 show ?thesis by blast
qed

lemma webgl_env_facts:
  "window env_webgl_no_constructor ''WebGLRenderingContext'' = None"
  "\<not> truthy (window_get env_webgl_no_constructor ''WebGLRenderingContext'')"
  "truthy (window_get env_webgl ''WebGLRenderingContext'')"
  "call_getContext (create env_webgl ''dummy'') ''webgl'' = Inr VNull"
  "call_getContext (create env_webgl ''dummy'') ''experimental-webgl'' = Inr VObject"
  "call_getContext (create env_webgl_no_constructor ''dummy'') ''experimental-webgl''
     = Inr VObject"
  by (simp_all add: env_webgl_no_constructor_def env_webgl_def window_get_def
        call_getContext_def)

text \<open>
  \<^bold>\<open>C7\<close>. \<^verbatim>\<open>webGL()\<close> is false whenever \<^verbatim>\<open>WebGLRenderingContext\<close> is not in
  \<^verbatim>\<open>window\<close> (or is falsy there); it is true exactly when the constructor is there
  and \<^verbatim>\<open>getContext("webgl")\<close> returns a context, or returns nothing and
  \<^verbatim>\<open>getContext("experimental-webgl")\<close> returns one; and it is never anything but
  true or false.
\<close>

theorem webGL_needs_both:
  "(window e ''WebGLRenderingContext'' = None \<longrightarrow> webGL e = VBool False)
   \<and> (\<not> truthy (window_get e ''WebGLRenderingContext'') \<longrightarrow> webGL e = VBool False)
   \<and> (webGL e = VBool True \<longleftrightarrow>
        truthy (window_get e ''WebGLRenderingContext'')
        \<and> ((\<exists>c. call_getContext (create e ''dummy'') ''webgl'' = Inr c \<and> truthy c)
           \<or> (\<exists>c c'. call_getContext (create e ''dummy'') ''webgl'' = Inr c \<and> \<not> truthy c
                 \<and> call_getContext (create e ''dummy'') ''experimental-webgl'' = Inr c'
                 \<and> truthy c')))
   \<and> (webGL e \<noteq> VBool True \<longrightarrow> webGL e = VBool False)"
proof (intro conjI)
  show "window e ''WebGLRenderingContext'' = None \<longrightarrow> webGL e = VBool False"
    by (simp add: webGL_def webGL_try_def window_get_def Let_def)
  show "\<not> truthy (window_get e ''WebGLRenderingContext'') \<longrightarrow> webGL e = VBool False"
    by (simp add: webGL_def webGL_try_def Let_def)
  show "webGL e = VBool True \<longleftrightarrow>
        truthy (window_get e ''WebGLRenderingContext'')
        \<and> ((\<exists>c. call_getContext (create e ''dummy'') ''webgl'' = Inr c \<and> truthy c)
           \<or> (\<exists>c c'. call_getContext (create e ''dummy'') ''webgl'' = Inr c \<and> \<not> truthy c
                 \<and> call_getContext (create e ''dummy'') ''experimental-webgl'' = Inr c'
                 \<and> truthy c'))"
    by (auto simp: webGL_def webGL_try_def Let_def split: sum.splits if_splits)
  show "webGL e \<noteq> VBool True \<longrightarrow> webGL e = VBool False"
    by (auto simp: webGL_def webGL_try_def Let_def split: sum.splits if_splits)
qed

text \<open>
  Witness for \<^bold>\<open>C7\<close>: a host where the element gives an experimental context:
  \<^verbatim>\<open>webGL()\<close> is true with the constructor and false without it.
\<close>

theorem webGL_needs_both_witness:
  "window env_webgl_no_constructor ''WebGLRenderingContext'' = None
   \<and> call_getContext (create env_webgl_no_constructor ''dummy'') ''experimental-webgl''
       = Inr VObject
   \<and> webGL env_webgl_no_constructor = VBool False
   \<and> webGL env_webgl_no_constructor \<noteq> VBool True
   \<and> webGL env_webgl = VBool True"
proof -
  note a = webGL_needs_both [of env_webgl_no_constructor]
  note b = webGL_needs_both [of env_webgl]
  from a webgl_env_facts(1) have 1: "webGL env_webgl_no_constructor = VBool False" by blast
  then have 2: "webGL env_webgl_no_constructor \<noteq> VBool True" by simp
  have "\<not> truthy VNull" and "truthy VObject" by simp_all
  with b webgl_env_facts(3,4,5) have 3: "webGL env_webgl = VBool True" by blast
  from webgl_env_facts(1,6) 1 2 3 show ?thesis by blast
qed

section \<open>Which calls can raise\<close>

lemma pfx_host_working: "pfx_host (working e) p s = (let (r, s') = pfx e p s in (Inr r, s'))"
  by (simp add: pfx_host_def working_def)

text \<open>
  In a host whose DOM works, a call is what \<open>run_probe\<close> says of it.
\<close>

lemma call_probe_working: "call_probe p (working e) s = run_probe p e s"
proof (cases p)
  case Css3Dtransform
  then show ?thesis
    by (simp add: css3Dtransform_host_def css3Dtransform_def pfx_host_working split_def Let_def)
next
  case CssTransform
  then show ?thesis
    by (simp add: cssTransform_host_def cssTransform_def pfx_host_working split_def Let_def)
next
  case CssTransition
  then show ?thesis
    by (simp add: cssTransition_host_def cssTransition_def pfx_host_working split_def Let_def)
qed (simp_all add: working_def util_create_def placeholder_host_def placeholder_def
      viewportUnit_host_def viewportUnit_def remUnit_host_def remUnit_def canvas_host_def
      canvas_def webGL_host_def webGL_def async_host_def async_def defer_host_def
      defer_attr_def srcset_host_def srcset_def sizes_host_def sizes_def Let_def)

lemma catalog_covered:
  "p \<in> set reads_only \<union> set creates_only
        \<union> {Canvas, Svg, Cors, HistoryAPI, Touch, Css3Dtransform, CssTransform, CssTransition}"
  by (cases p) (simp_all add: reads_only_def creates_only_def)

lemma reads_only_return:
  assumes "p \<in> set reads_only"
  shows "returns (fst (call_probe p h s))"
  using assms by (auto simp: reads_only_def returns_def)

lemma creates_only_raise:
  assumes "p \<in> set creates_only"
  shows "fst (call_probe p h s) = Inl x
         \<longleftrightarrow> (\<exists>tag. created_tag p = Some tag \<and> createElement_raises h tag = Some x)"
  using assms
  by (auto simp: creates_only_def util_create_def placeholder_host_def viewportUnit_host_def
        remUnit_host_def webGL_host_def async_host_def defer_host_def srcset_host_def
        sizes_host_def split: option.splits)

lemma canvas_raise:
  "fst (call_probe Canvas h s) = Inl x \<longleftrightarrow>
     createElement_raises h ''dummy'' = Some x
     \<or> (createElement_raises h ''dummy'' = None
        \<and> (\<exists>f. el_getContext (create (base h) ''dummy'') = Some f \<and> f ''2d'' = Inl x))"
  by (auto simp: canvas_host_def util_create_def split: option.splits sum.splits)

lemma svg_raise:
  "fst (call_probe Svg h s) = Inl x \<longleftrightarrow> document_createElementNS (base h) = Some (Inl x)"
  by (auto simp: svg_def split: option.splits sum.splits)

lemma cors_raise:
  "fst (call_probe Cors h s) = Inl x \<longleftrightarrow>
     in_window (base h) ''XMLHttpRequest'' \<and> construct_XMLHttpRequest (base h) = Inl x"
  by (auto simp: cors_def split: sum.splits)

lemma historyAPI_raise:
  "fst (call_probe HistoryAPI h s) = Inl x \<longleftrightarrow>
     truthy (window_get (base h) ''history'')
     \<and> js_in ''pushState'' (window_get (base h) ''history'') (history_has (base h)) = Inl x"
  by (auto simp: historyAPI_def Let_def split: sum.splits)

lemma touch_raise:
  "fst (call_probe Touch h s) = Inl x \<longleftrightarrow>
     \<not> in_window (base h) ''ontouchstart'' \<and> \<not> truthy (gesture_value (base h))
     \<and> truthy (window_get (base h) ''DocumentTouch'')
     \<and> instanceof_DocumentTouch (base h) (window_get (base h) ''DocumentTouch'') = Inl x"
  by (auto simp: touch_def gesture_value_def Let_def split: sum.splits)

lemma pfx_host_raise:
  "fst (pfx_host h p s) = Inl x \<longleftrightarrow>
     x = TypeError \<and> \<not> dummy_has_style h \<and> memory_get (base h) s p = VUndefined"
  by (auto simp: pfx_host_def split_def Let_def)

lemma css3Dtransform_raise:
  "fst (call_probe Css3Dtransform h s) = Inl x \<longleftrightarrow>
     x = TypeError \<and> \<not> old s \<and> \<not> dummy_has_style h
     \<and> memory_get (base h) s ''perspective'' = VUndefined"
proof (cases "pfx_host h ''perspective'' s")
  case (Pair r s')
  with pfx_host_raise [of h "''perspective''" s x] show ?thesis
    by (cases r) (auto simp: css3Dtransform_host_def)
qed

lemma cssTransform_raise:
  "fst (call_probe CssTransform h s) = Inl x \<longleftrightarrow>
     x = TypeError \<and> \<not> old s \<and> \<not> dummy_has_style h
     \<and> memory_get (base h) s ''transformOrigin'' = VUndefined"
proof (cases "pfx_host h ''transformOrigin'' s")
  case (Pair r s')
  with pfx_host_raise [of h "''transformOrigin''" s x] show ?thesis
    by (cases r) (auto simp: cssTransform_host_def)
qed

lemma cssTransition_raise:
  "fst (call_probe CssTransition h s) = Inl x \<longleftrightarrow>
     x = TypeError \<and> \<not> dummy_has_style h
     \<and> memory_get (base h) s ''transition'' = VUndefined"
proof (cases "pfx_host h ''transition'' s")
  case (Pair r s')
  with pfx_host_raise [of h "''transition''" s x] show ?thesis
    by (cases r) (auto simp: cssTransition_host_def)
qed


text \<open>
  \<^bold>\<open>C2\<close>, as amended. In any host, where creating an element may raise and the
  resolver may have no style object, every probe is in one of these cases.
  \<^item> Eleven probes do nothing outside a \<^verbatim>\<open>try\<close> block but read properties and
    complete with a return: \<^verbatim>\<open>addEventListener\<close>, \<^verbatim>\<open>querySelectorAll\<close>,
    \<^verbatim>\<open>matchMedia\<close>, \<^verbatim>\<open>deviceMotion\<close>, \<^verbatim>\<open>deviceOrientation\<close>, \<^verbatim>\<open>contextMenu\<close>,
    \<^verbatim>\<open>classList\<close>, \<^verbatim>\<open>localStorage\<close>, \<^verbatim>\<open>serviceWorker\<close>, \<^verbatim>\<open>geolocation\<close>,
    \<^verbatim>\<open>pictureElement\<close>.
  \<^item> \<^verbatim>\<open>placeholder\<close>, \<^verbatim>\<open>viewportUnit\<close>, \<^verbatim>\<open>remUnit\<close>, \<^verbatim>\<open>webGL\<close>, \<^verbatim>\<open>async\<close>,
    \<^verbatim>\<open>defer\<close>, \<^verbatim>\<open>srcset\<close>, \<^verbatim>\<open>sizes\<close> raise \<open>x\<close> exactly when
    \<^verbatim>\<open>document.createElement\<close> raises \<open>x\<close> for the tag they create (the element is
    created outside the \<^verbatim>\<open>try\<close> block); what happens inside the \<^verbatim>\<open>try\<close> block
    never reaches the caller.
  \<^item> \<^verbatim>\<open>canvas\<close> raises \<open>x\<close> exactly when creating the element or
    \<^verbatim>\<open>getContext("2d")\<close> raises \<open>x\<close>; \<^verbatim>\<open>svg\<close> when the call of
    \<^verbatim>\<open>document.createElementNS\<close> does; \<^verbatim>\<open>cors\<close> when \<^verbatim>\<open>XMLHttpRequest\<close> is in
    \<^verbatim>\<open>window\<close> and \<^verbatim>\<open>new XMLHttpRequest()\<close> does; \<^verbatim>\<open>historyAPI\<close> when
    \<^verbatim>\<open>window.history\<close> is truthy and the \<^verbatim>\<open>in\<close> test on it does; \<^verbatim>\<open>touch\<close> when
    the first two alternatives are falsy, \<^verbatim>\<open>window.DocumentTouch\<close> is truthy and
    \<^verbatim>\<open>instanceof\<close> does.
  \<^item> \<^verbatim>\<open>css3Dtransform\<close>, \<^verbatim>\<open>cssTransform\<close> and \<^verbatim>\<open>cssTransition\<close> raise exactly
    TypeError, exactly when the resolver has no style object, has no result for
    the name yet and, for the first two, the denylist flag is not set.
  In each case the exception is the completion of the call: it reaches the caller.
  Nothing is stated about \<^verbatim>\<open>testAll\<close>.
\<close>

theorem probes_raise_exactly:
  "p \<in> set reads_only \<union> set creates_only
        \<union> {Canvas, Svg, Cors, HistoryAPI, Touch, Css3Dtransform, CssTransform, CssTransition}
   \<and> (p \<in> set reads_only \<longrightarrow> returns (fst (call_probe p h s)))
   \<and> (p \<in> set creates_only \<longrightarrow>
        (fst (call_probe p h s) = Inl x
         \<longleftrightarrow> (\<exists>tag. created_tag p = Some tag \<and> createElement_raises h tag = Some x)))
   \<and> (fst (call_probe Canvas h s) = Inl x \<longleftrightarrow>
        createElement_raises h ''dummy'' = Some x
        \<or> (createElement_raises h ''dummy'' = None
           \<and> (\<exists>f. el_getContext (create (base h) ''dummy'') = Some f \<and> f ''2d'' = Inl x)))
   \<and> (fst (call_probe Svg h s) = Inl x \<longleftrightarrow>
        document_createElementNS (base h) = Some (Inl x))
   \<and> (fst (call_probe Cors h s) = Inl x \<longleftrightarrow>
        in_window (base h) ''XMLHttpRequest'' \<and> construct_XMLHttpRequest (base h) = Inl x)
   \<and> (fst (call_probe HistoryAPI h s) = Inl x \<longleftrightarrow>
        truthy (window_get (base h) ''history'')
        \<and> js_in ''pushState'' (window_get (base h) ''history'') (history_has (base h))
            = Inl x)
   \<and> (fst (call_probe Touch h s) = Inl x \<longleftrightarrow>
        \<not> in_window (base h) ''ontouchstart'' \<and> \<not> truthy (gesture_value (base h))
        \<and> truthy (window_get (base h) ''DocumentTouch'')
        \<and> instanceof_DocumentTouch (base h) (window_get (base h) ''DocumentTouch'') = Inl x)
   \<and> (fst (call_probe Css3Dtransform h s) = Inl x \<longleftrightarrow>
        x = TypeError \<and> \<not> old s \<and> \<not> dummy_has_style h
        \<and> memory_get (base h) s ''perspective'' = VUndefined)
   \<and> (fst (call_probe CssTransform h s) = Inl x \<longleftrightarrow>
        x = TypeError \<and> \<not> old s \<and> \<not> dummy_has_style h
        \<and> memory_get (base h) s ''transformOrigin'' = VUndefined)
   \<and> (fst (call_probe CssTransition h s) = Inl x \<longleftrightarrow>
        x = TypeError \<and> \<not> dummy_has_style h
        \<and> memory_get (base h) s ''transition'' = VUndefined)"
proof -
  have a: "p \<in> set reads_only \<longrightarrow> returns (fst (call_probe p h s))"
    by (rule impI) (rule reads_only_return)
  have b: "p \<in> set creates_only \<longrightarrow>
        (fst (call_probe p h s) = Inl x
         \<longleftrightarrow> (\<exists>tag. created_tag p = Some tag \<and> createElement_raises h tag = Some x))"
    by (rule impI) (rule creates_only_raise)
  show ?thesis
    by (intro conjI)
       (rule catalog_covered, rule a, rule b, rule canvas_raise, rule svg_raise,
        rule cors_raise, rule historyAPI_raise, rule touch_raise, rule css3Dtransform_raise,
        rule cssTransform_raise, rule cssTransition_raise)
qed

lemma raise_hosts_facts:
  "LocalStorage \<in> set reads_only"
  "WebGL \<in> set creates_only"
  "created_tag WebGL = Some ''dummy''"
  "createElement_raises host_create_raises ''dummy'' = Some (HostError ''createElement'')"
  "\<not> dummy_has_style host_no_style"
  by (simp_all add: reads_only_def creates_only_def host_create_raises_def host_no_style_def)

lemma no_style_fresh:
  "memory_get (base host_no_style) (init env_none) ''perspective'' = VUndefined"
proof -
  have "memory (init env_none) ''perspective'' = None" by (simp add: init_def)
  moreover have "proto (base host_no_style) ''perspective'' = None"
    by (simp add: host_no_style_def env_none_def object_prototype_def)
  ultimately show ?thesis by (simp add: memory_get_def)
qed

lemma env_none_not_old: "\<not> old (init env_none)"
  by code_simp

text \<open>
  Witness for \<^bold>\<open>C2\<close>: where \<^verbatim>\<open>document.createElement\<close> raises, \<^verbatim>\<open>localStorage\<close>
  returns and \<^verbatim>\<open>webGL\<close> raises what \<^verbatim>\<open>createElement\<close> raised; in a document with
  no style object \<^verbatim>\<open>css3Dtransform\<close> raises TypeError.
\<close>

theorem probes_raise_exactly_witness:
  "LocalStorage \<in> set reads_only
   \<and> returns (fst (call_probe LocalStorage host_create_raises (init env_webgl)))
   \<and> WebGL \<in> set creates_only
   \<and> fst (call_probe WebGL host_create_raises (init env_webgl))
       = Inl (HostError ''createElement'')
   \<and> fst (call_probe Css3Dtransform host_no_style (init env_none)) = Inl TypeError"
proof -
  note a = probes_raise_exactly
    [where p = LocalStorage and h = host_create_raises and s = "init env_webgl"]
  note b = probes_raise_exactly
    [where p = WebGL and h = host_create_raises and s = "init env_webgl"
       and x = "HostError ''createElement''"]
  note c = probes_raise_exactly
    [where h = host_no_style and s = "init env_none" and x = TypeError]
  note a2 = conjunct1 [OF conjunct2 [OF a]]
  note b3 = conjunct1 [OF conjunct2 [OF conjunct2 [OF b]]]
  note c9 = conjunct1 [OF conjunct2 [OF conjunct2 [OF conjunct2 [OF conjunct2
              [OF conjunct2 [OF conjunct2 [OF conjunct2 [OF conjunct2 [OF c]]]]]]]]]
  have 1: "returns (fst (call_probe LocalStorage host_create_raises (init env_webgl)))"
    by (rule mp [OF a2]) (rule raise_hosts_facts(1))
  have "\<exists>tag. created_tag WebGL = Some tag
          \<and> createElement_raises host_create_raises tag = Some (HostError ''createElement'')"
    by (rule exI [of _ "''dummy''"]) (rule conjI, rule raise_hosts_facts(3), rule raise_hosts_facts(4))
  then have 2: "fst (call_probe WebGL host_create_raises (init env_webgl))
       = Inl (HostError ''createElement'')"
    by (rule iffD2 [OF mp [OF b3 raise_hosts_facts(2)]])
  have "TypeError = TypeError \<and> \<not> old (init env_none) \<and> \<not> dummy_has_style host_no_style
        \<and> memory_get (base host_no_style) (init env_none) ''perspective'' = VUndefined"
    by (intro conjI) (rule refl, rule env_none_not_old, rule raise_hosts_facts(5), rule no_style_fresh)
  then have 3: "fst (call_probe Css3Dtransform host_no_style (init env_none)) = Inl TypeError"
    by (rule iffD2 [OF c9])
  show ?thesis
    by (intro conjI) (rule raise_hosts_facts(1), rule 1, rule raise_hosts_facts(2), rule 2, rule 3)
qed

text \<open>
  Counterexample to \<^bold>\<open>C2\<close> as stated (no probe ever raises): where
  \<^verbatim>\<open>window.XMLHttpRequest\<close> is null, the name is in \<^verbatim>\<open>window\<close>, and
  \<^verbatim>\<open>new XMLHttpRequest()\<close> raises TypeError out of \<^verbatim>\<open>cors()\<close>, in a host whose DOM
  works.
\<close>

theorem cors_raises_counterexample:
  "call_probe Cors (working env_xhr_null) (init env_xhr_null)
     = (Inl TypeError, init env_xhr_null)"
  by (simp add: working_def cors_def construct_XMLHttpRequest_def in_window_def
        window_get_def env_xhr_null_def)

section \<open>The aggregator\<close>

lemma canvas_svg_supported: "supported env_canvas_svg (init env_canvas_svg) = [Canvas, Svg]"
  by code_simp

text \<open>
  \<^bold>\<open>C1\<close>, the code at the input of the claim. In a host where exactly \<^verbatim>\<open>canvas\<close> and
  \<^verbatim>\<open>svg\<close> are supported, \<^verbatim>\<open>feature.testAll()\<close> raises TypeError at the first key
  of the catalog and the class attribute of the root element stays as it was:
  no \<^verbatim>\<open>js\<close>, \<^verbatim>\<open>canvas\<close> or \<^verbatim>\<open>svg\<close> token is added.
\<close>

theorem testAll_canvas_svg_raises:
  "supported env_canvas_svg (init env_canvas_svg) = [Canvas, Svg]
   \<and> testAll (Some Feature_object) env_canvas_svg (init env_canvas_svg)
       = (Inl TypeError, init env_canvas_svg)
   \<and> className (snd (testAll (Some Feature_object) env_canvas_svg (init env_canvas_svg)))
       = ''no-js''"
proof -
  have t: "testAll (Some Feature_object) env_canvas_svg (init env_canvas_svg)
           = (Inl TypeError, init env_canvas_svg)"
    by (rule testAll_raises)
  have c: "className (init env_canvas_svg) = ''no-js''"
    by (simp add: init_def env_canvas_svg_def env_none_def)
  from canvas_svg_supported t c show ?thesis by simp
qed

lemma testAll_loop_classes:
  assumes "testAll_loop ps classes = Inr classes'"
  shows "classes' = classes"
  using assms
proof (induction ps)
  case Nil
  then show ?case by simp
next
  case (Cons a ps)
  obtain test v where a: "a = (test, v)" by (cases a)
  show ?case
  proof (cases "test \<noteq> ''testAll'' \<and> test \<noteq> ''constructor'' \<and> truthy v")
    case True
    with Cons.prems a show ?thesis by simp
  next
    case False
    with Cons.prems a have "testAll_loop ps classes = Inr classes'" by auto
    then show ?thesis by (rule Cons.IH)
  qed
qed

lemma toLowerCase_js: "toLowerCase '' js'' = '' js''"
  by (simp add: toLowerCase_def lower_char_def upper_letters_def lower_letters_def)

lemma testAll_completes:
  assumes "fst (testAll recv e s) = Inr v"
  shows "snd (testAll recv e s) = s\<lparr>className := className s @ '' js''\<rparr>"
proof (cases "testAll_loop (case recv of None \<Rightarrow> [] | Some ps \<Rightarrow> ps) '' js''")
  case (Inl x)
  with assms show ?thesis by (simp add: testAll_def)
next
  case (Inr classes)
  then have "classes = '' js''" by (rule testAll_loop_classes)
  with Inr show ?thesis by (simp add: testAll_def toLowerCase_js)
qed

lemma split_sp_at_space: "split_sp (a @ CHR '' '' # b) = split_sp a @ split_sp b"
proof (induction a)
  case Nil
  show ?case by simp
next
  case (Cons c a)
  obtain w ws where w: "split_sp a = w # ws"
    using split_sp_ne [of a] by (cases "split_sp a") auto
  have i: "split_sp (a @ CHR '' '' # b) = (w # ws) @ split_sp b"
    using Cons.IH by (simp only: w)
  show ?case
  proof (cases "c = CHR '' ''")
    case True
    then show ?thesis by (simp add: i w)
  next
    case False
    then show ?thesis by (simp add: i w)
  qed
qed

lemma js_count_append: "js_count (cls @ '' js'') = js_count cls + 1"
proof -
  have "split_sp (cls @ '' js'') = split_sp cls @ split_sp ''js''"
    using split_sp_at_space [of cls "''js''"] by simp
  also have "split_sp ''js'' = [''js'']" by simp
  finally show ?thesis by (simp add: js_count_def tokens_def)
qed

text \<open>
  \<^bold>\<open>C8\<close>, as amended. A call of \<^verbatim>\<open>testAll\<close> that completes appends the text
  \<^verbatim>\<open>" js"\<close> to the class attribute of the root element, whatever the attribute
  holds already: each completed call adds one \<^verbatim>\<open>js\<close> token, a second call a second
  one. The code keeps no record of an earlier run.
\<close>

theorem testAll_appends_js:
  assumes "fst (testAll recv e s) = Inr v"
  shows "className (snd (testAll recv e s)) = className s @ '' js''
       \<and> js_count (className (snd (testAll recv e s))) = js_count (className s) + 1"
proof -
  from assms have "snd (testAll recv e s) = s\<lparr>className := className s @ '' js''\<rparr>"
    by (rule testAll_completes)
  then show ?thesis by (simp add: js_count_append)
qed

lemma testAll_bare: "testAll None e s = (Inr VUndefined, s\<lparr>className := className s @ '' js''\<rparr>)"
  by (simp add: testAll_def toLowerCase_js)

text \<open>
  Witness for \<^bold>\<open>C8\<close>: a call with no receiver completes, and the class attribute
  \<^verbatim>\<open>no-js\<close> becomes \<^verbatim>\<open>no-js js\<close>.
\<close>

theorem testAll_appends_js_witness:
  "fst (testAll None env_none (init env_none)) = Inr VUndefined
   \<and> className (snd (testAll None env_none (init env_none))) = ''no-js js''
   \<and> js_count (className (snd (testAll None env_none (init env_none)))) = 1"
proof -
  have a: "fst (testAll None env_none (init env_none)) = Inr VUndefined"
    by (simp add: testAll_bare)
  have c: "className (init env_none) = ''no-js''"
    by (simp add: init_def env_none_def)
  have j: "js_count ''no-js'' = 0"
    by (simp add: js_count_def tokens_def)
  have k: "''no-js'' @ '' js'' = ''no-js js''" and n: "(0::nat) + 1 = 1" by simp_all
  note t = testAll_appends_js [OF a, unfolded c j k n]
  show ?thesis by (intro conjI) (rule a, rule conjunct1 [OF t], rule conjunct2 [OF t])
qed

text \<open>
  Counterexample to \<^bold>\<open>C8\<close> as stated (a second call does not duplicate the token):
  two calls with no receiver, as in \<^verbatim>\<open>var f = feature.testAll; f(); f()\<close>, turn the
  class attribute \<^verbatim>\<open>no-js\<close> into \<^verbatim>\<open>no-js js js\<close>.
\<close>

theorem testAll_twice_counterexample:
  "className (run [(env_none, CallTestAll None), (env_none, CallTestAll None)] (init env_none))
     = ''no-js js js''
   \<and> js_count (className
         (run [(env_none, CallTestAll None), (env_none, CallTestAll None)] (init env_none)))
     = 2"
proof -
  have "className
          (run [(env_none, CallTestAll None), (env_none, CallTestAll None)] (init env_none))
        = ''no-js js js''"
    by (simp add: testAll_bare init_def env_none_def)
  then show ?thesis by (simp add: js_count_def tokens_def)
qed

end
